theory Spec2Isabelle
  imports Main
begin

section \<open>Go values shared by the middleware and the handlers\<close>

text \<open>
  A Go \<^verbatim>\<open>error\<close> is a value compared by identity (\<^verbatim>\<open>switch err { case gorm.ErrRecordNotFound: ... }\<close>)
  and read through \<^verbatim>\<open>err.Error()\<close>. The sentinel of the gorm library is a constructor of
  its own; every other error is carried by its message. A nil error is \<open>None\<close>.
\<close>

datatype error = ErrRecordNotFound | Err string

primrec Error :: "error \<Rightarrow> string" where
  "Error ErrRecordNotFound = ''record not found''"
| "Error (Err m) = m"

text \<open>
  A value of type \<^verbatim>\<open>interface{}\<close>, by its dynamic type. JSON numbers of a claim set are
  \<^verbatim>\<open>float64\<close>; the type \<open>'f\<close> stands for \<^verbatim>\<open>float64\<close>, which is never computed with here,
  only converted. A nil interface (an absent map key, an absent context value) is \<open>None\<close>.
\<close>

datatype 'f any = Float64 'f | Uint nat | Bytes string | Str string | Bool bool

datatype token = Token string

text \<open>
  The request-scoped context, by the entries this code reads and writes: what
  \<^verbatim>\<open>jwtauth.FromContext(ctx)\<close> returns (token, claims, err), and the values under the keys
  \<^verbatim>\<open>c.UserIDCtxKey\<close> and \<^verbatim>\<open>c.BodyCtxKey\<close>.
\<close>

record 'f request_ctx =
  jwt_token :: "token option"
  jwt_claims :: "string \<rightharpoonup> 'f any"
  jwt_err :: "error option"
  UserIDCtxKey :: "'f any option"
  BodyCtxKey :: "'f any option"

datatype 'p response =
    ResultErrorJSON nat string
  | ResultResponseJSON nat 'p
  | NotFound

abbreviation StatusOK :: nat where "StatusOK \<equiv> 200"
abbreviation StatusBadRequest :: nat where "StatusBadRequest \<equiv> 400"
abbreviation StatusUnauthorized :: nat where "StatusUnauthorized \<equiv> 401"
abbreviation StatusForbidden :: nat where "StatusForbidden \<equiv> 403"

section \<open>middleware: Enforce\<close>

text \<open>
  The collaborators of \<^verbatim>\<open>Enforce\<close> that live outside the file: the flag \<^verbatim>\<open>config.IsSetup\<close>,
  \<^verbatim>\<open>user.IsEnabled\<close> (three results, of which the code keeps the second),
  \<^verbatim>\<open>user.GetCapabilities\<close>, the constant \<^verbatim>\<open>user.CapabilityFullAdmin\<close>, and Go's conversion
  \<^verbatim>\<open>uint(f)\<close> of a \<^verbatim>\<open>float64\<close>.
\<close>

record 'f env =
  IsSetup :: bool
  uint_of_float64 :: "'f \<Rightarrow> nat"
  IsEnabled :: "nat \<Rightarrow> bool \<times> bool \<times> error option"
  GetCapabilities :: "nat \<Rightarrow> string list \<times> error option"
  CapabilityFullAdmin :: string

text \<open>
  \<^verbatim>\<open>AuthCache\<close>: the entries a \<^verbatim>\<open>Get\<close> finds at the time of the request (an expired entry
  is not found, so it is not in the map). Everything this file stores is a \<^verbatim>\<open>[]string\<close>.
\<close>

type_synonym cache = "string \<rightharpoonup> string list"

text \<open>The calls a request makes to its collaborators, in order.\<close>

datatype event =
    Call_FromContext
  | Call_IsEnabled nat
  | Cache_Get string
  | Call_GetCapabilities nat
  | Cache_Set string "string list"
  | Logger_Debug "string list" "string list"

datatype 'f outcome =
    Responded "unit response"
  | Next "'f request_ctx"
  | Panic

text \<open>\<^verbatim>\<open>fmt.Sprintf("%v", userID)\<close> for a \<^verbatim>\<open>uint\<close>: its decimal digits.\<close>

definition digit :: "nat \<Rightarrow> char" where
  "digit d = ''0123456789'' ! d"

fun Sprintf_v :: "nat \<Rightarrow> string" where
  "Sprintf_v n = (if n < 10 then [digit n] else Sprintf_v (n div 10) @ [digit (n mod 10)])"

declare Sprintf_v.simps [simp del]

primrec slices_Contains :: "'a list \<Rightarrow> 'a \<Rightarrow> bool" where
  "slices_Contains [] v = False"
| "slices_Contains (x # xs) v = (if x = v then True else slices_Contains xs v)"

text \<open>
  Lines 78 to 83: the loop over \<^verbatim>\<open>permissions\<close> that sets \<^verbatim>\<open>hasOnePermission\<close>. It has no
  \<^verbatim>\<open>break\<close>: every permission is visited.
\<close>

fun match_loop :: "string \<Rightarrow> string list \<Rightarrow> bool \<Rightarrow> string list \<Rightarrow> bool" where
  "match_loop fullAdmin userCapabilities hasOne [] = hasOne"
| "match_loop fullAdmin userCapabilities hasOne (permission # rest) =
     match_loop fullAdmin userCapabilities
       (if slices_Contains userCapabilities fullAdmin \<or> slices_Contains userCapabilities permission
        then True else hasOne)
       rest"

definition hasOnePermission :: "string \<Rightarrow> string list \<Rightarrow> string list \<Rightarrow> bool" where
  "hasOnePermission fullAdmin userCapabilities permissions =
     match_loop fullAdmin userCapabilities False permissions"

text \<open>
  Modelled from the spec: \<^verbatim>\<open>AuthCacheSet\<close>, declared outside the given sources; the
  specification's \<^verbatim>\<open>Set\<close> "inserts or replaces the entry" under the key.
\<close>

definition AuthCacheSet :: "string \<Rightarrow> string list \<Rightarrow> cache \<Rightarrow> cache" where
  "AuthCacheSet k x c = c(k \<mapsto> x)"

text \<open>
  Lines 62 to 74: the capabilities of the user, from the cache when the key is found, from
  \<^verbatim>\<open>user.GetCapabilities\<close> otherwise; \<^verbatim>\<open>AuthCacheSet\<close> is called under \<^verbatim>\<open>err != nil\<close>.
\<close>

definition cacheKey_of :: "nat \<Rightarrow> string" where
  "cacheKey_of userID = ''userCapabilties.'' @ Sprintf_v userID"

definition lookupCapabilities :: "'f env \<Rightarrow> nat \<Rightarrow> cache \<Rightarrow> string list \<times> cache \<times> event list" where
  "lookupCapabilities env userID c =
     (let cacheKey = cacheKey_of userID in
      case c cacheKey of
        Some cacheItem \<Rightarrow> (cacheItem, c, [Cache_Get cacheKey])
      | None \<Rightarrow>
          (case GetCapabilities env userID of
             (userCapabilities, err) \<Rightarrow>
               if err \<noteq> None
               then (userCapabilities, AuthCacheSet cacheKey userCapabilities c,
                     [Cache_Get cacheKey, Call_GetCapabilities userID,
                      Cache_Set cacheKey userCapabilities])
               else (userCapabilities, c, [Cache_Get cacheKey, Call_GetCapabilities userID])))"

text \<open>
  Lines 59 to 91, for a user that passed the account check: the permission check. The
  result is \<open>None\<close> when the request may go on, or the response that ends it.
\<close>

definition checkPermissions ::
  "'f env \<Rightarrow> string list \<Rightarrow> nat \<Rightarrow> cache \<Rightarrow> unit response option \<times> cache \<times> event list" where
  "checkPermissions env permissions userID c =
     (if length permissions > 0 then
        (case lookupCapabilities env userID c of
           (userCapabilities, c', evs) \<Rightarrow>
             if \<not> hasOnePermission (CapabilityFullAdmin env) userCapabilities permissions
             then (Some (ResultErrorJSON StatusForbidden ''Forbidden''), c',
                   evs @ [Logger_Debug userCapabilities permissions])
             else (None, c', evs))
      else (None, c, []))"

text \<open>
  \<^verbatim>\<open>Enforce(permissions...)\<close> applied to one request: the outcome, the cache afterwards and
  the calls made. The type assertion \<^verbatim>\<open>claims["uid"].(float64)\<close> of line 51 has no
  \<^verbatim>\<open>ok\<close> result, so it panics on a nil interface and on any other dynamic type.
\<close>

definition Enforce ::
  "'f env \<Rightarrow> string list \<Rightarrow> 'f request_ctx \<Rightarrow> cache \<Rightarrow> 'f outcome \<times> cache \<times> event list" where
  "Enforce env permissions ctx c =
     (if IsSetup env then
        (case jwt_err ctx of
           Some err \<Rightarrow>
             (Responded (ResultErrorJSON StatusUnauthorized (Error err)), c, [Call_FromContext])
         | None \<Rightarrow>
             (case jwt_claims ctx ''uid'' of
                Some (Float64 f) \<Rightarrow>
                  (let userID = uint_of_float64 env f in
                   case IsEnabled env userID of
                     (_, enabled, _) \<Rightarrow>
                       if jwt_token ctx = None \<or> \<not> enabled
                       then (Responded (ResultErrorJSON StatusUnauthorized ''Unauthorised''), c,
                             [Call_FromContext, Call_IsEnabled userID])
                       else
                         (case checkPermissions env permissions userID c of
                            (Some resp, c', evs) \<Rightarrow>
                              (Responded resp, c', [Call_FromContext, Call_IsEnabled userID] @ evs)
                          | (None, c', evs) \<Rightarrow>
                              (Next (ctx\<lparr>UserIDCtxKey := Some (Uint userID)\<rparr>), c',
                               [Call_FromContext, Call_IsEnabled userID] @ evs)))
              | _ \<Rightarrow> (Panic, c, [Call_FromContext])))
      else (Next ctx, c, []))"

text \<open>
  The hoisted check, in the words of the specification: first test whether the Capability
  Set contains the full-admin sentinel, otherwise test whether it intersects the required
  list.
\<close>

definition hoisted_check :: "string \<Rightarrow> string list \<Rightarrow> string list \<Rightarrow> bool" where
  "hoisted_check fullAdmin userCapabilities permissions =
     (if fullAdmin \<in> set userCapabilities then True
      else set userCapabilities \<inter> set permissions \<noteq> {})"

section \<open>middleware: DecodeAuth\<close>






section \<open>handler: DNS providers\<close>

text \<open>
  \<^verbatim>\<open>dnsprovider.Model\<close> is declared outside the given sources; the handlers touch its field
  \<^verbatim>\<open>UserID\<close> only, so the other fields are the extension of the record.
\<close>

record Model =
  UserID :: nat

text \<open>
  What the handlers call: \<^verbatim>\<open>json.Unmarshal(bodyBytes, &item)\<close> (the bytes, the struct it
  fills, and the struct and error it leaves), the error \<^verbatim>\<open>h.ErrInvalidPayload\<close>, the zero
  value of \<^verbatim>\<open>var newItem dnsprovider.Model\<close>, \<^verbatim>\<open>item.Save()\<close> (a pointer receiver: the
  struct after the call, and the error), \<^verbatim>\<open>getURLParamInt(r, name)\<close>,
  \<^verbatim>\<open>dnsprovider.GetByID\<close> and \<^verbatim>\<open>item.Delete()\<close>, whose result type is \<open>'d\<close>.
\<close>

record ('a, 'd) dns_env =
  json_Unmarshal :: "string \<Rightarrow> 'a Model_scheme \<Rightarrow> 'a Model_scheme \<times> error option"
  ErrInvalidPayload :: error
  zero_Model :: "'a Model_scheme"
  Save :: "'a Model_scheme \<Rightarrow> 'a Model_scheme \<times> error option"
  getURLParamInt :: "string \<Rightarrow> nat \<times> error option"
  GetByID :: "nat \<Rightarrow> 'a Model_scheme \<times> error option"
  Delete :: "'a Model_scheme \<Rightarrow> 'd"

text \<open>
  \<^verbatim>\<open>bodyBytes, _ := r.Context().Value(c.BodyCtxKey).([]byte)\<close> and
  \<^verbatim>\<open>userID, _ := r.Context().Value(c.UserIDCtxKey).(uint)\<close>: the two-result form of the type
  assertion gives the zero value (nil bytes, 0) when the value is absent or of another type.
\<close>

definition body_of_ctx :: "'f request_ctx \<Rightarrow> string" where
  "body_of_ctx ctx = (case BodyCtxKey ctx of Some (Bytes b) \<Rightarrow> b | _ \<Rightarrow> [])"

definition userID_of_ctx :: "'f request_ctx \<Rightarrow> nat" where
  "userID_of_ctx ctx = (case UserIDCtxKey ctx of Some (Uint u) \<Rightarrow> u | _ \<Rightarrow> 0)"

text \<open>
  \<^verbatim>\<open>CreateDNSProvider\<close> on one request: the response, and the records on which
  \<^verbatim>\<open>Save\<close> was called.
\<close>

definition CreateDNSProvider ::
  "('a, 'd) dns_env \<Rightarrow> 'f request_ctx \<Rightarrow> 'a Model_scheme response \<times> 'a Model_scheme list" where
  "CreateDNSProvider env ctx =
     (let bodyBytes = body_of_ctx ctx in
      case json_Unmarshal env bodyBytes (zero_Model env) of
        (_, Some err) \<Rightarrow> (ResultErrorJSON StatusBadRequest (Error (ErrInvalidPayload env)), [])
      | (unmarshalled, None) \<Rightarrow>
          (let userID = userID_of_ctx ctx;
               newItem = unmarshalled\<lparr>UserID := userID\<rparr> in
           case Save env newItem of
             (_, Some err) \<Rightarrow>
               (ResultErrorJSON StatusBadRequest (''Unable to save DNS Provider: '' @ Error err),
                [newItem])
           | (saved, None) \<Rightarrow> (ResultResponseJSON StatusOK saved, [newItem])))"

text \<open>
  \<^verbatim>\<open>DeleteDNSProvider\<close> on one request. The \<^verbatim>\<open>switch err\<close> has the cases
  \<^verbatim>\<open>gorm.ErrRecordNotFound\<close>, \<^verbatim>\<open>nil\<close> and \<^verbatim>\<open>default\<close>.
\<close>

definition DeleteDNSProvider :: "('a, 'd) dns_env \<Rightarrow> 'd response" where
  "DeleteDNSProvider env =
     (case getURLParamInt env ''providerID'' of
        (_, Some err) \<Rightarrow> ResultErrorJSON StatusBadRequest (Error err)
      | (providerID, None) \<Rightarrow>
          (case GetByID env providerID of
             (_, Some ErrRecordNotFound) \<Rightarrow> NotFound
           | (item, None) \<Rightarrow> ResultResponseJSON StatusOK (Delete env item)
           | (_, Some err) \<Rightarrow> ResultErrorJSON StatusBadRequest (Error err)))"

section \<open>The scenario of the specification: user 42\<close>

text \<open>
  A configured deployment in which \<^verbatim>\<open>float64\<close> values are read as naturals, the account
  lookup answers \<open>enabled\<close> with the error \<open>lookupErr\<close>, and the capability lookup
  answers \<open>caps\<close>; a request whose verified token carries the claim \<^verbatim>\<open>uid\<close> = 42.
\<close>

definition scenario_env :: "bool \<Rightarrow> error option \<Rightarrow> string list \<times> error option \<Rightarrow> nat env" where
  "scenario_env enabled lookupErr caps =
     \<lparr>IsSetup = True, uint_of_float64 = (\<lambda>f. f),
      IsEnabled = (\<lambda>u. (True, enabled, lookupErr)),
      GetCapabilities = (\<lambda>u. caps),
      CapabilityFullAdmin = ''full-admin''\<rparr>"

definition scenario_ctx :: "(string \<rightharpoonup> nat any) \<Rightarrow> nat request_ctx" where
  "scenario_ctx claims =
     \<lparr>jwt_token = Some (Token ''t''), jwt_claims = claims, jwt_err = None,
      UserIDCtxKey = None, BodyCtxKey = None\<rparr>"

text \<open>
  Collaborators for the DNS provider handlers: a model with no field but \<^verbatim>\<open>UserID\<close>, a
  decoder that lets the body choose that field (here: its length), a \<^verbatim>\<open>Save\<close> that succeeds,
  the URL parameter 7, a lookup that finds the record of user 42, and a \<^verbatim>\<open>Delete\<close> that
  returns \<open>deleteErr\<close>.
\<close>

definition scenario_dns_env :: "error option \<Rightarrow> (unit, error option) dns_env" where
  "scenario_dns_env deleteErr =
     \<lparr>json_Unmarshal = (\<lambda>bodyBytes item. (item\<lparr>UserID := length bodyBytes\<rparr>, None)),
      ErrInvalidPayload = Err ''invalid payload'',
      zero_Model = \<lparr>UserID = 0\<rparr>,
      Save = (\<lambda>item. (item, None)),
      getURLParamInt = (\<lambda>name. (7, None)),
      GetByID = (\<lambda>providerID. (\<lparr>UserID = 42\<rparr>, None)),
      Delete = (\<lambda>item. deleteErr)\<rparr>"

section \<open>Helper facts\<close>

lemma slices_Contains_set: "slices_Contains xs v = (v \<in> set xs)"
  by (induction xs) auto

lemma match_loop_eq:
  "match_loop fa caps h ps = (h \<or> (ps \<noteq> [] \<and> fa \<in> set caps) \<or> (\<exists>p \<in> set ps. p \<in> set caps))"
  by (induction ps arbitrary: h) (auto simp: slices_Contains_set)

lemma hasOnePermission_eq:
  "hasOnePermission fa caps ps = ((ps \<noteq> [] \<and> fa \<in> set caps) \<or> set caps \<inter> set ps \<noteq> {})"
  by (auto simp: hasOnePermission_def match_loop_eq)

lemma cacheKey_42: "cacheKey_of 42 = ''userCapabilties.42''"
  by (simp add: cacheKey_of_def Sprintf_v.simps digit_def)

lemma Enforce_enabled:
  assumes "IsSetup env" "jwt_err ctx = None" "jwt_claims ctx ''uid'' = Some (Float64 f)"
    "jwt_token ctx \<noteq> None" "fst (snd (IsEnabled env (uint_of_float64 env f)))"
  shows "Enforce env permissions ctx c =
     (case checkPermissions env permissions (uint_of_float64 env f) c of
        (Some resp, c', evs) \<Rightarrow>
          (Responded resp, c', [Call_FromContext, Call_IsEnabled (uint_of_float64 env f)] @ evs)
      | (None, c', evs) \<Rightarrow>
          (Next (ctx\<lparr>UserIDCtxKey := Some (Uint (uint_of_float64 env f))\<rparr>), c',
           [Call_FromContext, Call_IsEnabled (uint_of_float64 env f)] @ evs))"
  using assms by (auto simp: Enforce_def Let_def split: prod.splits option.splits)

lemma fst_lookupCapabilities:
  "fst (lookupCapabilities env u c) =
     (case c (cacheKey_of u) of Some cacheItem \<Rightarrow> cacheItem | None \<Rightarrow> fst (GetCapabilities env u))"
  by (simp add: lookupCapabilities_def Let_def split: option.splits prod.splits)

lemma fst_checkPermissions:
  "fst (checkPermissions env permissions u c) =
     (if permissions = [] \<or> hasOnePermission (CapabilityFullAdmin env) (fst (lookupCapabilities env u c)) permissions
      then None else Some (ResultErrorJSON StatusForbidden ''Forbidden''))"
  by (auto simp: checkPermissions_def split: prod.splits)

lemma Model_same_more:
  "Model.more m1 = Model.more m2 \<Longrightarrow> m1\<lparr>UserID := u\<rparr> = m2\<lparr>UserID := u\<rparr>"
  by (cases m1, cases m2) simp

lemma userID_of_ctx_body [simp]:
  "userID_of_ctx (ctx\<lparr>BodyCtxKey := b\<rparr>) = userID_of_ctx ctx"
  by (simp add: userID_of_ctx_def)

lemma body_of_ctx_Bytes [simp]:
  "body_of_ctx (ctx\<lparr>BodyCtxKey := Some (Bytes b)\<rparr>) = b"
  by (simp add: body_of_ctx_def)

lemma CreateDNSProvider_saved:
  assumes "json_Unmarshal env b (zero_Model env) = (m, None)"
  shows "snd (CreateDNSProvider env (ctx\<lparr>BodyCtxKey := Some (Bytes b)\<rparr>)) =
     [m\<lparr>UserID := userID_of_ctx ctx\<rparr>]"
  using assms by (simp add: CreateDNSProvider_def Let_def split: prod.splits option.splits)

section \<open>The enforcement decision\<close>

text \<open>
  C1. In a configured deployment, for a request whose verified claims carry a \<^verbatim>\<open>float64\<close>
  user identifier, whose token is present and whose account is enabled: when the
  required-permission list is empty the request is passed on; otherwise it is passed on
  exactly when the user's capabilities (the cache entry if there is one, the result of
  \<^verbatim>\<open>user.GetCapabilities\<close> if not) contain the full-admin sentinel or share an element with
  the required list, and answered with 403 "Forbidden" when they do not. On the way on, the
  user identifier is attached to the context.
\<close>

theorem Enforce_decision:
  assumes "IsSetup env" and "jwt_err ctx = None"
    and "jwt_claims ctx ''uid'' = Some (Float64 f)"
    and "jwt_token ctx \<noteq> None"
    and "IsEnabled env (uint_of_float64 env f) = (account, True, lookupErr)"
  shows "fst (Enforce env permissions ctx c) =
     (let userID = uint_of_float64 env f;
          userCapabilities =
            (case c (cacheKey_of userID) of
               Some cacheItem \<Rightarrow> cacheItem
             | None \<Rightarrow> fst (GetCapabilities env userID));
          allow = Next (ctx\<lparr>UserIDCtxKey := Some (Uint userID)\<rparr>)
      in if permissions = [] then allow
         else if CapabilityFullAdmin env \<in> set userCapabilities
                 \<or> set userCapabilities \<inter> set permissions \<noteq> {}
         then allow
         else Responded (ResultErrorJSON StatusForbidden ''Forbidden''))"
proof -
  let ?u = "uint_of_float64 env f"
  have en: "fst (snd (IsEnabled env ?u))"
    using assms(5) by simp
  obtain r c' evs where cp: "checkPermissions env permissions ?u c = (r, c', evs)"
    by (cases "checkPermissions env permissions ?u c") auto
  have r: "r = (if permissions = [] \<or>
        hasOnePermission (CapabilityFullAdmin env) (fst (lookupCapabilities env ?u c)) permissions
      then None else Some (ResultErrorJSON StatusForbidden ''Forbidden''))"
    using fst_checkPermissions [of env permissions ?u c] cp by simp
  show ?thesis
    using Enforce_enabled [OF assms(1-4) en, of permissions c] cp r
    by (auto simp: hasOnePermission_eq fst_lookupCapabilities Let_def)
qed

theorem Enforce_decision_witness:
  "IsSetup (scenario_env True None ([''hosts:view''], None))
   \<and> jwt_err (scenario_ctx [''uid'' \<mapsto> Float64 42]) = None
   \<and> jwt_claims (scenario_ctx [''uid'' \<mapsto> Float64 42]) ''uid'' = Some (Float64 42)
   \<and> jwt_token (scenario_ctx [''uid'' \<mapsto> Float64 42]) \<noteq> None
   \<and> IsEnabled (scenario_env True None ([''hosts:view''], None)) 42 = (True, True, None)
   \<and> fst (Enforce (scenario_env True None ([''hosts:view''], None)) [''hosts:view'', ''hosts:edit'']
        (scenario_ctx [''uid'' \<mapsto> Float64 42]) Map.empty)
      = Next ((scenario_ctx [''uid'' \<mapsto> Float64 42])\<lparr>UserIDCtxKey := Some (Uint 42)\<rparr>)
   \<and> fst (Enforce (scenario_env True None ([''hosts:view''], None)) [''hosts:edit'']
        (scenario_ctx [''uid'' \<mapsto> Float64 42]) Map.empty)
      = Responded (ResultErrorJSON StatusForbidden ''Forbidden'')
   \<and> fst (Enforce (scenario_env True None ([''hosts:view''], None)) []
        (scenario_ctx [''uid'' \<mapsto> Float64 42]) Map.empty)
      = Next ((scenario_ctx [''uid'' \<mapsto> Float64 42])\<lparr>UserIDCtxKey := Some (Uint 42)\<rparr>)"
  using
    Enforce_decision [of "scenario_env True None ([''hosts:view''], None)"
      "scenario_ctx [''uid'' \<mapsto> Float64 42]" 42 True None "[''hosts:view'', ''hosts:edit'']" Map.empty]
    Enforce_decision [of "scenario_env True None ([''hosts:view''], None)"
      "scenario_ctx [''uid'' \<mapsto> Float64 42]" 42 True None "[''hosts:edit'']" Map.empty]
    Enforce_decision [of "scenario_env True None ([''hosts:view''], None)"
      "scenario_ctx [''uid'' \<mapsto> Float64 42]" 42 True None "[]" Map.empty]
  by (simp add: scenario_env_def scenario_ctx_def)

text \<open>
  C2. The specification asks for a 401 when the claim set has no user identifier or one of the
  wrong type. Line 51 asserts \<^verbatim>\<open>claims["uid"].(float64)\<close> without the \<^verbatim>\<open>ok\<close> result: with a
  verified token and no \<^verbatim>\<open>uid\<close> claim, and with a \<^verbatim>\<open>uid\<close> claim that is a string, the
  handler panics before it answers anything.
\<close>

theorem Enforce_bad_uid_panics:
  "Enforce (scenario_env True None ([''full-admin''], None)) [] (scenario_ctx Map.empty) Map.empty
     = (Panic, Map.empty, [Call_FromContext])
   \<and> Enforce (scenario_env True None ([''full-admin''], None)) []
        (scenario_ctx [''uid'' \<mapsto> Str ''42'']) Map.empty
     = (Panic, Map.empty, [Call_FromContext])"
  by (simp add: Enforce_def scenario_env_def scenario_ctx_def)

text \<open>
  C3. The specification asks that a successful capability lookup on a cache miss fills the cache.
  Line 71 calls \<^verbatim>\<open>AuthCacheSet\<close> under \<^verbatim>\<open>err != nil\<close>: for user 42, an empty cache and a
  lookup that succeeds with \<^verbatim>\<open>hosts:view\<close>, the request is passed on and the cache is still
  empty, so the same request on the cache it left calls \<^verbatim>\<open>user.GetCapabilities\<close> again.
\<close>

theorem Enforce_lookup_success_not_cached:
  "Enforce (scenario_env True None ([''hosts:view''], None)) [''hosts:view'']
        (scenario_ctx [''uid'' \<mapsto> Float64 42]) Map.empty
     = (Next ((scenario_ctx [''uid'' \<mapsto> Float64 42])\<lparr>UserIDCtxKey := Some (Uint 42)\<rparr>),
        Map.empty,
        [Call_FromContext, Call_IsEnabled 42, Cache_Get ''userCapabilties.42'',
         Call_GetCapabilities 42])
   \<and> snd (snd (Enforce (scenario_env True None ([''hosts:view''], None)) [''hosts:view'']
        (scenario_ctx [''uid'' \<mapsto> Float64 42])
        (fst (snd (Enforce (scenario_env True None ([''hosts:view''], None)) [''hosts:view'']
           (scenario_ctx [''uid'' \<mapsto> Float64 42]) Map.empty)))))
     = [Call_FromContext, Call_IsEnabled 42, Cache_Get ''userCapabilties.42'',
        Call_GetCapabilities 42]"
  by (simp add: Enforce_def checkPermissions_def lookupCapabilities_def hasOnePermission_def
      cacheKey_42 scenario_env_def scenario_ctx_def)

section \<open>The match loop against the hoisted check\<close>

text \<open>
  C8. For every Capability Set and every non-empty required-permission list, the value
  \<^verbatim>\<open>hasOnePermission\<close> that the loop of lines 78 to 83 computes equals the hoisted check:
  the set contains the full-admin sentinel, or else it intersects the required list.
\<close>

theorem match_loop_hoisted:
  "permissions \<noteq> [] \<Longrightarrow>
   hasOnePermission fullAdmin userCapabilities permissions =
   hoisted_check fullAdmin userCapabilities permissions"
  by (auto simp: hasOnePermission_eq hoisted_check_def)

theorem match_loop_hoisted_witness:
  "[''hosts:edit''] \<noteq> []
   \<and> hasOnePermission ''full-admin'' [''hosts:view'', ''full-admin''] [''hosts:edit'']
     = hoisted_check ''full-admin'' [''hosts:view'', ''full-admin''] [''hosts:edit'']
   \<and> hoisted_check ''full-admin'' [''hosts:view'', ''full-admin''] [''hosts:edit'']"
  using match_loop_hoisted
    [of "[''hosts:edit'']" "''full-admin''" "[''hosts:view'', ''full-admin'']"]
  by (simp add: hoisted_check_def)

section \<open>Account status\<close>

text \<open>
  C5 as stated fails. The specification has the request denied with 401 also when the
  account lookup errors.
  Line 52 drops the third result of \<^verbatim>\<open>user.IsEnabled\<close>: a lookup that returns its error
  together with \<open>enabled = true\<close> lets the request through, here on a route with no
  required permission.
\<close>

theorem Enforce_lookup_error_enabled_counterexample:
  "snd (snd (IsEnabled (scenario_env True (Some (Err ''database is locked'')) ([], None)) 42))
     = Some (Err ''database is locked'')
   \<and> Enforce (scenario_env True (Some (Err ''database is locked'')) ([], None)) []
        (scenario_ctx [''uid'' \<mapsto> Float64 42]) Map.empty
     = (Next ((scenario_ctx [''uid'' \<mapsto> Float64 42])\<lparr>UserIDCtxKey := Some (Uint 42)\<rparr>),
        Map.empty, [Call_FromContext, Call_IsEnabled 42])"
  by (simp add: Enforce_def checkPermissions_def scenario_env_def scenario_ctx_def)

text \<open>
  C5, amended. In a configured deployment, for a request whose claims carry a \<^verbatim>\<open>float64\<close>
  user identifier: when \<^verbatim>\<open>user.IsEnabled\<close> answers \<open>enabled = false\<close>, with or without an
  error, the request is answered with 401, whatever the capabilities and whatever the
  required-permission list (the empty one included); the cache is left as it was and
  \<^verbatim>\<open>user.GetCapabilities\<close> is not called. The message is "Unauthorised", or the token error's
  when \<^verbatim>\<open>jwtauth.FromContext\<close> returned one.
\<close>

theorem Enforce_not_enabled:
  assumes "IsSetup env"
    and "jwt_claims ctx ''uid'' = Some (Float64 f)"
    and "IsEnabled env (uint_of_float64 env f) = (account, False, lookupErr)"
  shows "fst (Enforce env permissions ctx c) =
     Responded (ResultErrorJSON StatusUnauthorized
       (case jwt_err ctx of None \<Rightarrow> ''Unauthorised'' | Some err \<Rightarrow> Error err))
     \<and> fst (snd (Enforce env permissions ctx c)) = c
     \<and> Call_GetCapabilities (uint_of_float64 env f) \<notin> set (snd (snd (Enforce env permissions ctx c)))"
  using assms by (simp add: Enforce_def split: option.splits)

theorem Enforce_not_enabled_witness:
  "IsSetup (scenario_env False None ([''full-admin''], None))
   \<and> jwt_claims (scenario_ctx [''uid'' \<mapsto> Float64 42]) ''uid'' = Some (Float64 42)
   \<and> IsEnabled (scenario_env False None ([''full-admin''], None)) 42 = (True, False, None)
   \<and> fst (Enforce (scenario_env False None ([''full-admin''], None)) []
        (scenario_ctx [''uid'' \<mapsto> Float64 42]) Map.empty)
     = Responded (ResultErrorJSON StatusUnauthorized ''Unauthorised'')
   \<and> IsEnabled (scenario_env False (Some (Err ''record not found'')) ([''full-admin''], None)) 42
     = (True, False, Some (Err ''record not found''))
   \<and> fst (Enforce (scenario_env False (Some (Err ''record not found'')) ([''full-admin''], None))
        [''hosts:view''] (scenario_ctx [''uid'' \<mapsto> Float64 42]) Map.empty)
     = Responded (ResultErrorJSON StatusUnauthorized ''Unauthorised'')"
  using
    Enforce_not_enabled [of "scenario_env False None ([''full-admin''], None)"
      "scenario_ctx [''uid'' \<mapsto> Float64 42]" 42 True None "[]" Map.empty]
    Enforce_not_enabled [of "scenario_env False (Some (Err ''record not found'')) ([''full-admin''], None)"
      "scenario_ctx [''uid'' \<mapsto> Float64 42]" 42 True "Some (Err ''record not found'')"
      "[''hosts:view'']" Map.empty]
  by (simp add: scenario_env_def scenario_ctx_def)

section \<open>Errors of the capability lookup\<close>

text \<open>
  C6. For a request of an enabled user on a route with a non-empty required-permission
  list, whose key misses the cache and whose capability lookup returns an error together
  with some capabilities: the decision is taken on the capabilities that were returned. The
  request is passed on when they hold the sentinel or one of the required permissions, and
  answered with 403 "Forbidden" otherwise; the error itself is never the response.
\<close>

theorem Enforce_capability_lookup_error:
  assumes "IsSetup env" and "jwt_err ctx = None"
    and "jwt_claims ctx ''uid'' = Some (Float64 f)"
    and "jwt_token ctx \<noteq> None"
    and "IsEnabled env (uint_of_float64 env f) = (account, True, lookupErr)"
    and "permissions \<noteq> []"
    and "c (cacheKey_of (uint_of_float64 env f)) = None"
    and "GetCapabilities env (uint_of_float64 env f) = (userCapabilities, Some err)"
  shows "fst (Enforce env permissions ctx c) =
     (if CapabilityFullAdmin env \<in> set userCapabilities
         \<or> set userCapabilities \<inter> set permissions \<noteq> {}
      then Next (ctx\<lparr>UserIDCtxKey := Some (Uint (uint_of_float64 env f))\<rparr>)
      else Responded (ResultErrorJSON StatusForbidden ''Forbidden''))"
proof -
  let ?u = "uint_of_float64 env f"
  have en: "fst (snd (IsEnabled env ?u))"
    using assms(5) by simp
  have caps: "fst (lookupCapabilities env ?u c) = userCapabilities"
    using assms(7,8) by (simp add: fst_lookupCapabilities)
  obtain r c' evs where cp: "checkPermissions env permissions ?u c = (r, c', evs)"
    by (cases "checkPermissions env permissions ?u c") auto
  have r: "r = (if hasOnePermission (CapabilityFullAdmin env) userCapabilities permissions
      then None else Some (ResultErrorJSON StatusForbidden ''Forbidden''))"
    using fst_checkPermissions [of env permissions ?u c] cp caps assms(6) by simp
  show ?thesis
    using Enforce_enabled [OF assms(1-4) en, of permissions c] cp r assms(6)
    by (auto simp: hasOnePermission_eq)
qed

theorem Enforce_capability_lookup_error_witness:
  "IsSetup (scenario_env True None ([], Some (Err ''database is locked'')))
   \<and> jwt_err (scenario_ctx [''uid'' \<mapsto> Float64 42]) = None
   \<and> jwt_claims (scenario_ctx [''uid'' \<mapsto> Float64 42]) ''uid'' = Some (Float64 42)
   \<and> jwt_token (scenario_ctx [''uid'' \<mapsto> Float64 42]) \<noteq> None
   \<and> IsEnabled (scenario_env True None ([], Some (Err ''database is locked''))) 42
     = (True, True, None)
   \<and> [''hosts:view''] \<noteq> []
   \<and> (Map.empty :: cache) (cacheKey_of 42) = None
   \<and> GetCapabilities (scenario_env True None ([], Some (Err ''database is locked''))) 42
     = ([], Some (Err ''database is locked''))
   \<and> fst (Enforce (scenario_env True None ([], Some (Err ''database is locked''))) [''hosts:view'']
        (scenario_ctx [''uid'' \<mapsto> Float64 42]) Map.empty)
     = Responded (ResultErrorJSON StatusForbidden ''Forbidden'')"
  using
    Enforce_capability_lookup_error [of "scenario_env True None ([], Some (Err ''database is locked''))"
      "scenario_ctx [''uid'' \<mapsto> Float64 42]" 42 True None "[''hosts:view'']" Map.empty
      "[]" "Err ''database is locked''"]
  by (simp add: scenario_env_def scenario_ctx_def)

section \<open>The deployment that is not set up\<close>

text \<open>
  C7. While \<^verbatim>\<open>config.IsSetup\<close> is false, every request is handed to the next handler with its
  context unchanged; the cache is untouched and no call is made: no claim extraction, no
  account lookup, no capability lookup.
\<close>

theorem Enforce_not_setup:
  "\<not> IsSetup env \<Longrightarrow> Enforce env permissions ctx c = (Next ctx, c, [])"
  by (simp add: Enforce_def)

theorem Enforce_not_setup_witness:
  "\<not> IsSetup ((scenario_env False None ([], None))\<lparr>IsSetup := False\<rparr>)
   \<and> Enforce ((scenario_env False None ([], None))\<lparr>IsSetup := False\<rparr>) [''hosts:edit'']
        ((scenario_ctx Map.empty)\<lparr>jwt_token := None, jwt_err := Some (Err ''no token found'')\<rparr>)
        Map.empty
     = (Next ((scenario_ctx Map.empty)\<lparr>jwt_token := None, jwt_err := Some (Err ''no token found'')\<rparr>),
        Map.empty, [])"
  using Enforce_not_setup [of "(scenario_env False None ([], None))\<lparr>IsSetup := False\<rparr>"
      "[''hosts:edit'']"
      "(scenario_ctx Map.empty)\<lparr>jwt_token := None, jwt_err := Some (Err ''no token found'')\<rparr>"
      Map.empty]
  by (simp add: scenario_env_def)

section \<open>Key material at startup\<close>




section \<open>DNS provider handlers\<close>

text \<open>
  C9. When two request bodies decode to models that differ at most in \<^verbatim>\<open>UserID\<close>, then
  under the same context \<^verbatim>\<open>CreateDNSProvider\<close> calls \<^verbatim>\<open>Save\<close> on the same record for both,
  and the \<^verbatim>\<open>UserID\<close> of that record is the \<^verbatim>\<open>uint\<close> stored under \<^verbatim>\<open>c.UserIDCtxKey\<close>, or 0
  when there is none: the body does not set the owner.
\<close>

theorem CreateDNSProvider_owner:
  assumes "json_Unmarshal env body1 (zero_Model env) = (m1, None)"
    and "json_Unmarshal env body2 (zero_Model env) = (m2, None)"
    and "Model.more m1 = Model.more m2"
  shows "\<exists>saved.
       snd (CreateDNSProvider env (ctx\<lparr>BodyCtxKey := Some (Bytes body1)\<rparr>)) = [saved]
     \<and> snd (CreateDNSProvider env (ctx\<lparr>BodyCtxKey := Some (Bytes body2)\<rparr>)) = [saved]
     \<and> UserID saved = (case UserIDCtxKey ctx of Some (Uint u) \<Rightarrow> u | _ \<Rightarrow> 0)"
proof -
  let ?saved = "m1\<lparr>UserID := userID_of_ctx ctx\<rparr>"
  have same: "m2\<lparr>UserID := userID_of_ctx ctx\<rparr> = ?saved"
    by (rule Model_same_more [OF assms(3) [symmetric]])
  have one: "snd (CreateDNSProvider env (ctx\<lparr>BodyCtxKey := Some (Bytes body1)\<rparr>)) = [?saved]"
    by (rule CreateDNSProvider_saved [OF assms(1)])
  have two: "snd (CreateDNSProvider env (ctx\<lparr>BodyCtxKey := Some (Bytes body2)\<rparr>)) = [?saved]"
    by (simp only: CreateDNSProvider_saved [OF assms(2)] same)
  have owner: "UserID ?saved = (case UserIDCtxKey ctx of Some (Uint u) \<Rightarrow> u | _ \<Rightarrow> 0)"
    by (simp add: userID_of_ctx_def)
  from one two owner show ?thesis by blast
qed

theorem CreateDNSProvider_owner_witness:
  "json_Unmarshal (scenario_dns_env None) ''{user_id:1}'' (zero_Model (scenario_dns_env None))
     = (\<lparr>UserID = 11\<rparr>, None)
   \<and> json_Unmarshal (scenario_dns_env None) ''{user_id:777}'' (zero_Model (scenario_dns_env None))
     = (\<lparr>UserID = 13\<rparr>, None)
   \<and> Model.more \<lparr>UserID = 11\<rparr> = Model.more \<lparr>UserID = 13\<rparr>
   \<and> snd (CreateDNSProvider (scenario_dns_env None)
        ((scenario_ctx Map.empty)\<lparr>UserIDCtxKey := Some (Uint 42), BodyCtxKey := Some (Bytes ''{user_id:1}'')\<rparr>))
     = [\<lparr>UserID = 42\<rparr>]
   \<and> snd (CreateDNSProvider (scenario_dns_env None)
        ((scenario_ctx Map.empty)\<lparr>UserIDCtxKey := Some (Uint 42), BodyCtxKey := Some (Bytes ''{user_id:777}'')\<rparr>))
     = [\<lparr>UserID = 42\<rparr>]"
  using CreateDNSProvider_owner [of "scenario_dns_env None" "''{user_id:1}''" "\<lparr>UserID = 11\<rparr>"
      "''{user_id:777}''" "\<lparr>UserID = 13\<rparr>" "(scenario_ctx Map.empty)\<lparr>UserIDCtxKey := Some (Uint 42)\<rparr>"]
  by (simp add: CreateDNSProvider_def body_of_ctx_def userID_of_ctx_def scenario_dns_env_def
      scenario_ctx_def Let_def)

text \<open>
  C10. When the provider identifier parses and the lookup returns no error,
  \<^verbatim>\<open>DeleteDNSProvider\<close> answers 200 with the result of \<^verbatim>\<open>item.Delete()\<close>, whatever that
  result is, a failure included. Read backwards: an answer other than this 200 needs a
  failed parse or a failed lookup.
\<close>

theorem DeleteDNSProvider_found:
  assumes "getURLParamInt env ''providerID'' = (providerID, None)"
    and "GetByID env providerID = (item, None)"
  shows "DeleteDNSProvider env = ResultResponseJSON StatusOK (Delete env item)"
  using assms by (simp add: DeleteDNSProvider_def)

theorem DeleteDNSProvider_found_witness:
  "getURLParamInt (scenario_dns_env (Some (Err ''database is locked''))) ''providerID'' = (7, None)
   \<and> GetByID (scenario_dns_env (Some (Err ''database is locked''))) 7 = (\<lparr>UserID = 42\<rparr>, None)
   \<and> DeleteDNSProvider (scenario_dns_env (Some (Err ''database is locked'')))
     = ResultResponseJSON StatusOK (Some (Err ''database is locked''))"
  using DeleteDNSProvider_found [of "scenario_dns_env (Some (Err ''database is locked''))" 7 "\<lparr>UserID = 42\<rparr>"]
  by (simp add: scenario_dns_env_def)

end
